theory Spec2Isabelle
  imports Complex_Main
begin

section \<open>Three-dimensional vectors and quaternions\<close>

text \<open>
  The controller works on the vector and quaternion objects of the rendering library.
  Numbers are modelled as reals. The library's methods mutate the receiver and return
  it; here every method is a function returning the new value, and the places where the
  source relies on (or trips over) the mutation are written out in the callers. The
  methods are the library's own (\<open>add\<close>, \<open>sub\<close>, \<open>multiplyScalar\<close>, \<open>divideScalar\<close>, \<open>dot\<close>,
  \<open>lengthSq\<close>, \<open>length\<close>, \<open>normalize\<close>, \<open>lerp\<close>, \<open>projectOnVector\<close>, \<open>projectOnPlane\<close>,
  \<open>applyQuaternion\<close>); the names that clash with constants of the logic carry a suffix.
\<close>

datatype vec3 = Vector3 (vx: real) (vy: real) (vz: real)

datatype quaternion = Quaternion (qx: real) (qy: real) (qz: real) (qw: real)

definition add_v :: "vec3 \<Rightarrow> vec3 \<Rightarrow> vec3" where
  "add_v a b = Vector3 (vx a + vx b) (vy a + vy b) (vz a + vz b)"

definition sub_v :: "vec3 \<Rightarrow> vec3 \<Rightarrow> vec3" where
  "sub_v a b = Vector3 (vx a - vx b) (vy a - vy b) (vz a - vz b)"

definition multiplyScalar :: "vec3 \<Rightarrow> real \<Rightarrow> vec3" where
  "multiplyScalar a k = Vector3 (vx a * k) (vy a * k) (vz a * k)"

definition divideScalar :: "vec3 \<Rightarrow> real \<Rightarrow> vec3" where
  "divideScalar a k = multiplyScalar a (1 / k)"

definition dot :: "vec3 \<Rightarrow> vec3 \<Rightarrow> real" where
  "dot a b = vx a * vx b + vy a * vy b + vz a * vz b"

definition lengthSq :: "vec3 \<Rightarrow> real" where
  "lengthSq a = vx a * vx a + vy a * vy a + vz a * vz a"

definition length_v :: "vec3 \<Rightarrow> real" where
  "length_v a = sqrt (lengthSq a)"

text \<open>\<open>normalize\<close> divides by \<open>length() || 1\<close>: the zero vector stays the zero vector.\<close>

definition normalize_v :: "vec3 \<Rightarrow> vec3" where
  "normalize_v a = divideScalar a (if length_v a = 0 then 1 else length_v a)"

definition lerp :: "vec3 \<Rightarrow> vec3 \<Rightarrow> real \<Rightarrow> vec3" where
  "lerp a b alpha =
     Vector3 (vx a + (vx b - vx a) * alpha) (vy a + (vy b - vy a) * alpha)
             (vz a + (vz b - vz a) * alpha)"

definition projectOnVector :: "vec3 \<Rightarrow> vec3 \<Rightarrow> vec3" where
  "projectOnVector a v =
     (let denominator = lengthSq v
      in if denominator = 0 then Vector3 0 0 0
         else multiplyScalar v (dot v a / denominator))"

definition projectOnPlane :: "vec3 \<Rightarrow> vec3 \<Rightarrow> vec3" where
  "projectOnPlane a planeNormal = sub_v a (projectOnVector a planeNormal)"

definition applyQuaternion :: "vec3 \<Rightarrow> quaternion \<Rightarrow> vec3" where
  "applyQuaternion v q =
     (let tx = 2 * (qy q * vz v - qz q * vy v);
          ty = 2 * (qz q * vx v - qx q * vz v);
          tz = 2 * (qx q * vy v - qy q * vx v)
      in Vector3 (vx v + qw q * tx + qy q * tz - qz q * ty)
                 (vy v + qw q * ty + qz q * tx - qx q * tz)
                 (vz v + qw q * tz + qx q * ty - qy q * tx))"

text \<open>The assignment \<open>v.y = 0\<close>.\<close>

definition set_y :: "vec3 \<Rightarrow> real \<Rightarrow> vec3" where
  "set_y a k = Vector3 (vx a) k (vz a)"

section \<open>Configuration and state of the controller\<close>

text \<open>The five tunable values of the \<open>Movement\<close> panel.\<close>

record config =
  moveSpeed :: real
  acceleration :: real
  deceleration :: real
  collisionDistance :: real
  wallSlideForce :: real

definition defaults :: config where
  "defaults = \<lparr> moveSpeed = 28 / 10, acceleration = 15, deceleration = 8,
                collisionDistance = 5 / 10, wallSlideForce = 98 / 100 \<rparr>"

text \<open>The minimum and maximum the panel allows for each value.\<close>

definition in_range :: "config \<Rightarrow> bool" where
  "in_range cfg =
     (1 / 10 \<le> moveSpeed cfg \<and> moveSpeed cfg \<le> 10 \<and>
      1 / 10 \<le> acceleration cfg \<and> acceleration cfg \<le> 20 \<and>
      1 / 10 \<le> deceleration cfg \<and> deceleration cfg \<le> 10 \<and>
      1 / 10 \<le> collisionDistance cfg \<and> collisionDistance cfg \<le> 3 \<and>
      1 / 10 \<le> wallSlideForce cfg \<and> wallSlideForce cfg \<le> 1)"

text \<open>
  The references the component keeps across frames (\<open>velocity\<close>, \<open>targetVelocity\<close>,
  \<open>lastTime\<close>, \<open>activeKeys\<close>), the \<open>isInteracting\<close> property captured by the handlers of
  the current effect, and the camera the component reads and writes. \<open>collisionNormal\<close>
  is reset at the start of every probe and is local to \<open>checkCollision\<close> below; the wall
  colliders and the raycaster appear as the scene query.
\<close>

record controls =
  isInteracting :: bool
  velocity :: vec3
  targetVelocity :: vec3
  lastTime :: real
  activeKeys :: "string set"
  cameraPosition :: vec3
  cameraQuaternion :: quaternion

section \<open>Target velocity\<close>

text \<open>
  \<open>forward.multiplyScalar(moveSpeed)\<close> scales \<open>forward\<close> itself before it is added, so
  the vector the \<open>KeyS\<close> line scales is the one the \<open>KeyW\<close> line left behind; the same
  holds for \<open>right\<close> and the \<open>KeyA\<close>, \<open>KeyD\<close> lines. The pairs below carry the scaled
  vector from one line to the next.
\<close>

definition updateTargetVelocity :: "config \<Rightarrow> controls \<Rightarrow> controls" where
  "updateTargetVelocity cfg s =
     (if isInteracting s then s\<lparr>targetVelocity := Vector3 0 0 0\<rparr>
      else
        let t0 = Vector3 0 0 0;
            forward0 = normalize_v (set_y (applyQuaternion (Vector3 0 0 (- 1)) (cameraQuaternion s)) 0);
            right0 = normalize_v (set_y (applyQuaternion (Vector3 (- 1) 0 0) (cameraQuaternion s)) 0);
            (forward1, t1) =
               (if ''KeyW'' \<in> activeKeys s
                then (let f = multiplyScalar forward0 (moveSpeed cfg) in (f, add_v t0 f))
                else (forward0, t0));
            (forward2, t2) =
               (if ''KeyS'' \<in> activeKeys s
                then (let f = multiplyScalar forward1 (moveSpeed cfg) in (f, sub_v t1 f))
                else (forward1, t1));
            (right1, t3) =
               (if ''KeyA'' \<in> activeKeys s
                then (let r = multiplyScalar right0 (moveSpeed cfg) in (r, add_v t2 r))
                else (right0, t2));
            (right2, t4) =
               (if ''KeyD'' \<in> activeKeys s
                then (let r = multiplyScalar right1 (moveSpeed cfg) in (r, sub_v t3 r))
                else (right1, t3))
        in s\<lparr>targetVelocity :=
               (if lengthSq t4 > moveSpeed cfg * moveSpeed cfg
                then multiplyScalar (normalize_v t4) (moveSpeed cfg) else t4)\<rparr>)"

section \<open>Collision probe and resolution\<close>

text \<open>
  The scene query: \<open>raycaster.set(origin, direction)\<close> followed by
  \<open>raycaster.intersectObjects(wallColliders.current)\<close>. The library returns the
  intersections sorted by distance and the controller reads only the first one, so a
  query is a function from origin and direction to the nearest intersection, if any.
  \<open>face\<close> tells whether the intersection carries a face (it does for every mesh).
\<close>

record intersection =
  distance :: real
  point :: vec3
  face :: bool

type_synonym raycast = "vec3 \<Rightarrow> vec3 \<Rightarrow> intersection option"

definition rays :: "vec3 list" where
  "rays = [Vector3 1 0 0, Vector3 (- 1) 0 0, Vector3 0 0 1, Vector3 0 0 (- 1),
           normalize_v (Vector3 1 0 1), normalize_v (Vector3 (- 1) 0 1),
           normalize_v (Vector3 1 0 (- 1)), normalize_v (Vector3 (- 1) 0 (- 1))]"

text \<open>
  One turn of the loop over the rays, on the pair of \<open>hasCollision\<close> and the vector
  accumulated in \<open>collisionNormal\<close>.
\<close>

fun castRay :: "raycast \<Rightarrow> real \<Rightarrow> vec3 \<Rightarrow> bool \<times> vec3 \<Rightarrow> vec3 \<Rightarrow> bool \<times> vec3" where
  "castRay rc cd newPosition (hasCollision, collisionNormal) direction =
     (case rc newPosition direction of
        None \<Rightarrow> (hasCollision, collisionNormal)
      | Some hit \<Rightarrow>
          if distance hit < cd
          then (True,
                if face hit
                then add_v collisionNormal (normalize_v (sub_v newPosition (point hit)))
                else collisionNormal)
          else (hasCollision, collisionNormal))"

definition probe :: "raycast \<Rightarrow> real \<Rightarrow> vec3 \<Rightarrow> bool \<times> vec3" where
  "probe rc cd newPosition = foldl (castRay rc cd newPosition) (False, Vector3 0 0 0) rays"

text \<open>The change of \<open>velocity\<close> once the normalised \<open>collisionNormal\<close> is known.\<close>

definition resolveVelocity :: "config \<Rightarrow> vec3 \<Rightarrow> vec3 \<Rightarrow> vec3" where
  "resolveVelocity cfg collisionNormal v =
     (let d = dot v collisionNormal
      in if d < 0
         then (let pushBack = multiplyScalar collisionNormal d;
                   v1 = sub_v v pushBack;
                   parallelVelocity = projectOnPlane v1 collisionNormal
               in multiplyScalar parallelVelocity (wallSlideForce cfg))
         else v)"

text \<open>
  \<open>checkCollision\<close> returns its boolean together with the two objects it mutates: the
  position it was given and \<open>velocity\<close>.
\<close>

definition checkCollision :: "config \<Rightarrow> raycast \<Rightarrow> vec3 \<Rightarrow> vec3 \<Rightarrow> bool \<times> vec3 \<times> vec3" where
  "checkCollision cfg rc newPosition v =
     (let (hasCollision, acc) = probe rc (collisionDistance cfg) newPosition
      in if hasCollision
         then (let collisionNormal = normalize_v acc;
                   v1 = resolveVelocity cfg collisionNormal v;
                   pushDistance = collisionDistance cfg - 5 / 100
               in (True, add_v newPosition (multiplyScalar collisionNormal pushDistance), v1))
         else (False, newPosition, v))"

section \<open>Key handlers\<close>

definition handleKeyDown :: "config \<Rightarrow> string \<Rightarrow> controls \<Rightarrow> controls" where
  "handleKeyDown cfg code s =
     (if \<not> isInteracting s
      then updateTargetVelocity cfg (s\<lparr>activeKeys := insert code (activeKeys s)\<rparr>)
      else s)"

definition handleKeyUp :: "config \<Rightarrow> string \<Rightarrow> controls \<Rightarrow> controls" where
  "handleKeyUp cfg code s =
     updateTargetVelocity cfg (s\<lparr>activeKeys := activeKeys s - {code}\<rparr>)"

section \<open>The frame\<close>

text \<open>The two branches of \<open>animate\<close> that move \<open>velocity\<close> towards \<open>targetVelocity\<close>.\<close>

definition integrate :: "config \<Rightarrow> real \<Rightarrow> vec3 \<Rightarrow> vec3 \<Rightarrow> vec3" where
  "integrate cfg deltaTime v target =
     (if lengthSq target > 0
      then (let lerpFactor = 1 - exp (- acceleration cfg * deltaTime)
            in lerp v target lerpFactor)
      else (let decelerationFactor = exp (- deceleration cfg * deltaTime)
            in multiplyScalar v decelerationFactor))"

definition frameDelta :: "real \<Rightarrow> real \<Rightarrow> real" where
  "frameDelta currentTime lastT = min ((currentTime - lastT) / 1000) (1 / 10)"

text \<open>
  One call of \<open>animate\<close> at clock reading \<open>currentTime\<close> (milliseconds). The position
  is copied to the camera only when \<open>checkCollision\<close> returns false.
\<close>

definition animate :: "config \<Rightarrow> raycast \<Rightarrow> real \<Rightarrow> controls \<Rightarrow> controls" where
  "animate cfg rc currentTime s =
     (let deltaTime = frameDelta currentTime (lastTime s);
          v1 = integrate cfg deltaTime (velocity s) (targetVelocity s);
          s1 = s\<lparr>lastTime := currentTime, velocity := v1\<rparr>
      in if lengthSq v1 > 1 / 10000 \<and> \<not> isInteracting s
         then (let newPosition = add_v (cameraPosition s) (multiplyScalar v1 deltaTime);
                   (hit, newPosition', v2) = checkCollision cfg rc newPosition v1
               in if \<not> hit
                  then s1\<lparr>velocity := v2, cameraPosition := newPosition'\<rparr>
                  else s1\<lparr>velocity := v2\<rparr>)
         else s1)"

section \<open>Events\<close>

text \<open>
  What reaches the component: key events, a frame at a clock reading, and a change of
  the \<open>isInteracting\<close> property. The change re-runs the effect: the references keep
  their contents, the new handlers see the new value, and the effect calls \<open>animate\<close>
  once. The frames still requested by earlier runs of the effect are not among these
  events; they are the subject of \<open>animateAs\<close> and \<open>frames\<close> below.
\<close>

datatype event =
    KeyDown string
  | KeyUp string
  | Frame real
  | SetInteracting bool real

definition setInteracting :: "config \<Rightarrow> raycast \<Rightarrow> bool \<Rightarrow> real \<Rightarrow> controls \<Rightarrow> controls" where
  "setInteracting cfg rc b currentTime s = animate cfg rc currentTime (s\<lparr>isInteracting := b\<rparr>)"

fun step :: "config \<Rightarrow> raycast \<Rightarrow> controls \<Rightarrow> event \<Rightarrow> controls" where
  "step cfg rc s (KeyDown code) = handleKeyDown cfg code s"
| "step cfg rc s (KeyUp code) = handleKeyUp cfg code s"
| "step cfg rc s (Frame currentTime) = animate cfg rc currentTime s"
| "step cfg rc s (SetInteracting b currentTime) = setInteracting cfg rc b currentTime s"

definition run :: "config \<Rightarrow> raycast \<Rightarrow> controls \<Rightarrow> event list \<Rightarrow> controls" where
  "run cfg rc s es = foldl (step cfg rc) s es"



section \<open>Notions used to state the properties\<close>

text \<open>Both speeds of a state are at most \<open>moveSpeed\<close>.\<close>

definition withinSpeed :: "config \<Rightarrow> controls \<Rightarrow> bool" where
  "withinSpeed cfg s =
     (length_v (velocity s) \<le> moveSpeed cfg \<and> length_v (targetVelocity s) \<le> moveSpeed cfg)"

text \<open>The clock reading an event carries is not before the one stored in \<open>lastTime\<close>.\<close>

fun clockAdvances :: "controls \<Rightarrow> event \<Rightarrow> bool" where
  "clockAdvances s (Frame currentTime) = (lastTime s \<le> currentTime)"
| "clockAdvances s (SetInteracting b currentTime) = (lastTime s \<le> currentTime)"
| "clockAdvances s (KeyDown code) = True"
| "clockAdvances s (KeyUp code) = True"

text \<open>The codes released by the key-up events of a sequence.\<close>

fun released :: "event list \<Rightarrow> string set" where
  "released [] = {}"
| "released (KeyUp code # es) = insert code (released es)"
| "released (e # es) = released es"

fun isPropertyChange :: "event \<Rightarrow> bool" where
  "isPropertyChange (SetInteracting b currentTime) = True"
| "isPropertyChange e = False"

text \<open>
  The probe as the specification words it: the nearest intersections that lie within the
  collision distance, one per colliding ray, the direction from each back to the probed
  position, and the normalised sum of these directions.
\<close>

definition nearHit :: "raycast \<Rightarrow> real \<Rightarrow> vec3 \<Rightarrow> vec3 \<Rightarrow> intersection option" where
  "nearHit rc cd newPosition direction =
     (case rc newPosition direction of
        None \<Rightarrow> None
      | Some hit \<Rightarrow> if distance hit < cd then Some hit else None)"

definition collidingHits :: "raycast \<Rightarrow> real \<Rightarrow> vec3 \<Rightarrow> intersection list" where
  "collidingHits rc cd newPosition = List.map_filter (nearHit rc cd newPosition) rays"

primrec sum_v :: "vec3 list \<Rightarrow> vec3" where
  "sum_v [] = Vector3 0 0 0"
| "sum_v (a # as) = add_v a (sum_v as)"

definition aggregateNormal :: "raycast \<Rightarrow> real \<Rightarrow> vec3 \<Rightarrow> vec3" where
  "aggregateNormal rc cd newPosition =
     normalize_v (sum_v (map (\<lambda>hit. normalize_v (sub_v newPosition (point hit)))
                             (collidingHits rc cd newPosition)))"

text \<open>
  Two properties of a scene query. Every intersection carries a face, as the
  intersections with meshes do; and the intersection point of a horizontal ray is at the
  height of its origin, as it is for a point on the ray.
\<close>

definition meshScene :: "raycast \<Rightarrow> bool" where
  "meshScene rc = (\<forall>origin direction hit. rc origin direction = Some hit \<longrightarrow> face hit)"

definition levelScene :: "raycast \<Rightarrow> bool" where
  "levelScene rc =
     (\<forall>origin direction hit.
        rc origin direction = Some hit \<and> vy direction = 0 \<longrightarrow> vy (point hit) = vy origin)"

section \<open>A concrete scene and concrete states\<close>

definition identityQ :: quaternion where
  "identityQ = Quaternion 0 0 0 1"

text \<open>The component as mounted, with the camera where the scene puts it.\<close>

definition initial :: controls where
  "initial = \<lparr> isInteracting = False, velocity = Vector3 0 0 0,
               targetVelocity = Vector3 0 0 0, lastTime = 0, activeKeys = {},
               cameraPosition = Vector3 0 (17 / 10) 8, cameraQuaternion = identityQ \<rparr>"

definition emptyScene :: raycast where
  "emptyScene origin direction = None"

text \<open>
  The face at \<open>z = -9.9\<close> of the first wall collider (centre \<open>(0, 2.5, -10)\<close>, size
  \<open>(10, 5, 0.2)\<close>), queried with a direction of unit length.
\<close>

definition northWall :: raycast where
  "northWall origin direction =
     (if vz direction < 0 \<and> - (99 / 10) < vz origin
      then (let t = (- (99 / 10) - vz origin) / vz direction;
                p = add_v origin (multiplyScalar direction t)
            in if \<bar>vx p\<bar> \<le> 5 \<and> 0 \<le> vy p \<and> vy p \<le> 5
               then Some \<lparr> distance = t, point = p, face = True \<rparr>
               else None)
      else None)"

text \<open>Walking at full speed towards that wall, 0.68 in front of it.\<close>

definition approaching :: controls where
  "approaching = initial \<lparr> velocity := Vector3 0 0 (- (28 / 10)),
                          targetVelocity := Vector3 0 0 (- (28 / 10)),
                          activeKeys := {''KeyW''},
                          cameraPosition := Vector3 0 (17 / 10) (- (922 / 100)) \<rparr>"

text \<open>Inspecting an object while two keys are still in the held set.\<close>

definition suspended :: controls where
  "suspended = initial \<lparr> isInteracting := True, activeKeys := {''KeyW'', ''KeyA''} \<rparr>"

section \<open>Vector algebra\<close>

lemmas vec_defs = add_v_def sub_v_def multiplyScalar_def divideScalar_def dot_def lengthSq_def

lemma lengthSq_nonneg: "0 \<le> lengthSq a"
  by (simp add: lengthSq_def)

lemma length_v_nonneg: "0 \<le> length_v a"
  by (simp add: length_v_def lengthSq_nonneg)

lemma lengthSq_eq_0_iff: "lengthSq a = 0 \<longleftrightarrow> a = Vector3 0 0 0"
proof (cases a)
  case (Vector3 x y z)
  have "x * x + y * y + z * z = 0 \<longleftrightarrow> x = 0 \<and> y = 0 \<and> z = 0"
    by (metis add_nonneg_eq_0_iff mult_eq_0_iff zero_le_square add_nonneg_nonneg)
  with Vector3 show ?thesis by (simp add: lengthSq_def)
qed

lemma length_v_sq: "length_v a * length_v a = lengthSq a"
  by (simp add: length_v_def lengthSq_nonneg)

lemma length_v_eq_0_iff: "length_v a = 0 \<longleftrightarrow> a = Vector3 0 0 0"
  by (simp add: length_v_def lengthSq_eq_0_iff)

lemma lengthSq_multiplyScalar: "lengthSq (multiplyScalar a k) = k * k * lengthSq a"
  by (simp add: vec_defs algebra_simps)

lemma length_v_multiplyScalar: "length_v (multiplyScalar a k) = \<bar>k\<bar> * length_v a"
  by (simp add: length_v_def lengthSq_multiplyScalar real_sqrt_mult)

lemma length_v_normalize: "a \<noteq> Vector3 0 0 0 \<Longrightarrow> length_v (normalize_v a) = 1"
  by (simp add: normalize_v_def divideScalar_def length_v_multiplyScalar length_v_eq_0_iff
        length_v_nonneg)

lemma normalize_v_zero: "normalize_v (Vector3 0 0 0) = Vector3 0 0 0"
  by (simp add: normalize_v_def vec_defs)

lemma length_v_le_iff: "0 \<le> m \<Longrightarrow> length_v a \<le> m \<longleftrightarrow> lengthSq a \<le> m * m"
proof -
  assume "0 \<le> m"
  then have "sqrt (m * m) = m" by simp
  then have "length_v a \<le> m \<longleftrightarrow> sqrt (lengthSq a) \<le> sqrt (m * m)"
    by (simp add: length_v_def)
  then show ?thesis by (simp only: real_sqrt_le_iff)
qed

lemma length_v_axis_z: "length_v (Vector3 0 0 c) = \<bar>c\<bar>"
  by (simp add: length_v_def lengthSq_def)

lemma length_v_axis_x: "length_v (Vector3 c 0 0) = \<bar>c\<bar>"
  by (simp add: length_v_def lengthSq_def)

lemma normalize_v_axis_z: "normalize_v (Vector3 0 0 c) = Vector3 0 0 (sgn c)"
  by (simp add: normalize_v_def length_v_axis_z divideScalar_def multiplyScalar_def sgn_real_def)

lemma normalize_v_axis_x: "normalize_v (Vector3 c 0 0) = Vector3 (sgn c) 0 0"
  by (simp add: normalize_v_def length_v_axis_x divideScalar_def multiplyScalar_def sgn_real_def)

lemma dot_multiplyScalar_left: "dot (multiplyScalar a k) b = k * dot a b"
  by (simp add: vec_defs algebra_simps)

lemma dot_sub_pushBack:
  assumes "lengthSq n = 1"
  shows "dot (sub_v v (multiplyScalar n (dot v n))) n = 0"
proof -
  have "dot (sub_v v (multiplyScalar n (dot v n))) n = dot v n - dot v n * lengthSq n"
    by (simp add: vec_defs algebra_simps)
  with assms show ?thesis by simp
qed

lemma projectOnPlane_orthogonal: "dot a n = 0 \<Longrightarrow> projectOnPlane a n = a"
  by (cases a) (simp add: projectOnPlane_def projectOnVector_def Let_def vec_defs algebra_simps)

section \<open>Opposing keys\<close>

text \<open>
  C1. With two opposing keys held the target velocity should have no horizontal
  component. The code does not deliver this: with the default \<open>moveSpeed\<close> of 2.8 and the
  camera unrotated, holding \<open>KeyW\<close> and \<open>KeyS\<close> gives the target \<open>(0, 0, 2.8)\<close>, full speed
  backwards, and holding \<open>KeyA\<close> and \<open>KeyD\<close> gives \<open>(2.8, 0, 0)\<close>. The second key of a pair
  scales the already scaled vector, so \<open>moveSpeed\<close> enters twice and the two
  contributions differ.
\<close>

theorem opposing_keys_leave_full_speed:
  "targetVelocity (updateTargetVelocity defaults (initial\<lparr>activeKeys := {''KeyW'', ''KeyS''}\<rparr>))
     = Vector3 0 0 (28 / 10) \<and>
   targetVelocity (updateTargetVelocity defaults (initial\<lparr>activeKeys := {''KeyA'', ''KeyD''}\<rparr>))
     = Vector3 (28 / 10) 0 0"
  by (simp add: updateTargetVelocity_def initial_def identityQ_def defaults_def
        applyQuaternion_def set_y_def normalize_v_axis_z normalize_v_axis_x
        lengthSq_def multiplyScalar_def add_v_def sub_v_def Let_def)

section \<open>Resolution of the velocity in exact arithmetic\<close>

lemma resolveVelocity_unit:
  assumes "length_v n = 1" and "dot v n < 0"
  shows "resolveVelocity cfg n v =
           multiplyScalar (sub_v v (multiplyScalar n (dot v n))) (wallSlideForce cfg)"
proof -
  from assms(1) have "lengthSq n = 1" using length_v_sq [of n] by simp
  then have "dot (sub_v v (multiplyScalar n (dot v n))) n = 0" by (rule dot_sub_pushBack)
  then show ?thesis using assms(2)
    by (simp add: resolveVelocity_def Let_def projectOnPlane_orthogonal)
qed

text \<open>
  In exact arithmetic: for a velocity \<open>v\<close> and a unit normal \<open>n\<close> with \<open>d = v \<cdot> n < 0\<close>, the
  resolution takes \<open>v - n d\<close>, projects it on the plane orthogonal to \<open>n\<close> and scales it by
  the wall-slide factor; with a factor of absolute value at most 1 the result is
  orthogonal to \<open>n\<close> and no longer than \<open>v - n d\<close>. The component computes in binary
  floating point, where the product with \<open>n\<close> and the length are rounded and can differ
  from these values in the last place; nothing is said here about the rounded values.
\<close>

lemma resolution_slides:
  assumes "length_v n = 1" and "dot v n < 0" and "\<bar>wallSlideForce cfg\<bar> \<le> 1"
  shows "resolveVelocity cfg n v =
           multiplyScalar (projectOnPlane (sub_v v (multiplyScalar n (dot v n))) n)
             (wallSlideForce cfg) \<and>
         resolveVelocity cfg n v =
           multiplyScalar (sub_v v (multiplyScalar n (dot v n))) (wallSlideForce cfg) \<and>
         0 \<le> dot (resolveVelocity cfg n v) n \<and>
         length_v (resolveVelocity cfg n v) \<le> length_v (sub_v v (multiplyScalar n (dot v n)))"
proof -
  let ?t = "sub_v v (multiplyScalar n (dot v n))"
  from assms(1) have n1: "lengthSq n = 1" using length_v_sq [of n] by simp
  have orth: "dot ?t n = 0" using n1 by (rule dot_sub_pushBack)
  have r: "resolveVelocity cfg n v = multiplyScalar ?t (wallSlideForce cfg)"
    using assms(1,2) by (rule resolveVelocity_unit)
  have a: "resolveVelocity cfg n v = multiplyScalar (projectOnPlane ?t n) (wallSlideForce cfg)"
    using r orth by (simp add: projectOnPlane_orthogonal)
  have b: "dot (resolveVelocity cfg n v) n = 0"
    using r orth by (simp add: dot_multiplyScalar_left)
  have "\<bar>wallSlideForce cfg\<bar> * length_v ?t \<le> 1 * length_v ?t"
    using assms(3) length_v_nonneg [of ?t] by (rule mult_right_mono)
  then have c: "length_v (resolveVelocity cfg n v) \<le> length_v ?t"
    using r by (simp add: length_v_multiplyScalar)
  from a r b c show ?thesis by simp
qed

section \<open>Integration\<close>

lemma lerp_twice: "lerp (lerp v t (1 - d)) t (1 - e) = lerp v t (1 - d * e)"
  by (simp add: lerp_def algebra_simps)

lemma lerp_funpow:
  "((\<lambda>u. lerp u t (1 - e)) ^^ n) v = lerp v t (1 - e ^ n)"
proof (induction n)
  case 0
  show ?case by (cases v) (simp add: lerp_def)
next
  case (Suc n)
  have "((\<lambda>u. lerp u t (1 - e)) ^^ Suc n) v = lerp (lerp v t (1 - e ^ n)) t (1 - e)"
    by (simp only: funpow.simps o_apply Suc)
  then show ?case by (simp only: lerp_twice power_Suc2)
qed

lemma multiplyScalar_twice: "multiplyScalar (multiplyScalar v d) e = multiplyScalar v (d * e)"
  by (simp add: multiplyScalar_def algebra_simps)

lemma multiplyScalar_funpow:
  "((\<lambda>u. multiplyScalar u e) ^^ n) v = multiplyScalar v (e ^ n)"
proof (induction n)
  case 0
  show ?case by (cases v) (simp add: multiplyScalar_def)
next
  case (Suc n)
  have "((\<lambda>u. multiplyScalar u e) ^^ Suc n) v = multiplyScalar (multiplyScalar v (e ^ n)) e"
    by (simp only: funpow.simps o_apply Suc)
  then show ?case by (simp only: multiplyScalar_twice power_Suc2)
qed

lemma exp_ten_steps: "exp (- a * (1 / 100)) ^ 10 = exp (- a * (1 / 10 :: real))"
proof -
  have "exp (- a * (1 / 100)) ^ 10 = exp (of_nat 10 * (- a * (1 / 100)))"
    by (rule exp_of_nat_mult [symmetric])
  also have "of_nat 10 * (- a * (1 / 100)) = - a * (1 / 10 :: real)" by simp
  finally show ?thesis .
qed

text \<open>
  C6. Integration does not depend on the frame rate: ten frames of \<open>dt = 0.01\<close> leave the
  velocity one frame of \<open>dt = 0.1\<close> leaves, for every starting velocity, in the branch of
  a non-zero target (blend factor \<open>1 - e\<^sup>-\<^sup>a\<^sup>\<cdot>\<^sup>d\<^sup>t\<close>) and in the branch of a zero target
  (decay factor \<open>e\<^sup>-\<^sup>d\<^sup>\<cdot>\<^sup>d\<^sup>t\<close>). Over the reals the two results are equal.
\<close>

theorem integrate_frame_rate_independent:
  "((\<lambda>u. integrate cfg (1 / 100) u target) ^^ 10) v = integrate cfg (1 / 10) v target"
proof (cases "lengthSq target > 0")
  case True
  then have "(\<lambda>u. integrate cfg (1 / 100) u target)
               = (\<lambda>u. lerp u target (1 - exp (- acceleration cfg * (1 / 100))))"
    by (simp add: integrate_def Let_def)
  then have "((\<lambda>u. integrate cfg (1 / 100) u target) ^^ 10) v
               = lerp v target (1 - exp (- acceleration cfg * (1 / 100)) ^ 10)"
    by (simp only: lerp_funpow)
  also have "\<dots> = integrate cfg (1 / 10) v target"
    using True by (simp only: exp_ten_steps integrate_def Let_def if_True)
  finally show ?thesis .
next
  case False
  then have "(\<lambda>u. integrate cfg (1 / 100) u target)
               = (\<lambda>u. multiplyScalar u (exp (- deceleration cfg * (1 / 100))))"
    by (simp add: integrate_def Let_def)
  then have "((\<lambda>u. integrate cfg (1 / 100) u target) ^^ 10) v
               = multiplyScalar v (exp (- deceleration cfg * (1 / 100)) ^ 10)"
    by (simp only: multiplyScalar_funpow)
  also have "\<dots> = integrate cfg (1 / 10) v target"
    using False by (simp only: exp_ten_steps integrate_def Let_def if_False)
  finally show ?thesis .
qed

section \<open>The speed limit in exact arithmetic\<close>

lemma length_v_clamp:
  assumes "0 \<le> m"
  shows "length_v (if lengthSq t > m * m then multiplyScalar (normalize_v t) m else t) \<le> m"
proof (cases "lengthSq t > m * m")
  case True
  then have "lengthSq t \<noteq> 0" using mult_nonneg_nonneg [OF assms assms] by linarith
  then have "t \<noteq> Vector3 0 0 0" by (simp add: lengthSq_eq_0_iff)
  then have "length_v (normalize_v t) = 1" by (rule length_v_normalize)
  then show ?thesis using True assms by (simp add: length_v_multiplyScalar)
next
  case False
  then show ?thesis using assms by (simp add: length_v_le_iff)
qed

lemma updateTargetVelocity_form:
  "\<exists>t. targetVelocity (updateTargetVelocity cfg s) =
         (if lengthSq t > moveSpeed cfg * moveSpeed cfg
          then multiplyScalar (normalize_v t) (moveSpeed cfg) else t)"
proof (cases "isInteracting s")
  case True
  have "lengthSq (Vector3 0 0 0) \<le> moveSpeed cfg * moveSpeed cfg" by (simp add: lengthSq_def)
  then have "targetVelocity (updateTargetVelocity cfg s) =
         (if lengthSq (Vector3 0 0 0) > moveSpeed cfg * moveSpeed cfg
          then multiplyScalar (normalize_v (Vector3 0 0 0)) (moveSpeed cfg) else Vector3 0 0 0)"
    using True by (simp add: updateTargetVelocity_def)
  then show ?thesis ..
next
  case False
  then show ?thesis
    by (simp add: updateTargetVelocity_def Let_def split_def) blast
qed

lemma target_within_speed:
  "0 \<le> moveSpeed cfg \<Longrightarrow> length_v (targetVelocity (updateTargetVelocity cfg s)) \<le> moveSpeed cfg"
proof -
  assume m: "0 \<le> moveSpeed cfg"
  obtain t where "targetVelocity (updateTargetVelocity cfg s) =
         (if lengthSq t > moveSpeed cfg * moveSpeed cfg
          then multiplyScalar (normalize_v t) (moveSpeed cfg) else t)"
    using updateTargetVelocity_form by blast
  then show ?thesis using length_v_clamp [OF m, of t] by simp
qed

lemma updateTargetVelocity_velocity: "velocity (updateTargetVelocity cfg s) = velocity s"
  by (simp add: updateTargetVelocity_def Let_def split_def)


lemma updateTargetVelocity_other:
  "isInteracting (updateTargetVelocity cfg s) = isInteracting s"
  "lastTime (updateTargetVelocity cfg s) = lastTime s"
  "activeKeys (updateTargetVelocity cfg s) = activeKeys s"
  "cameraPosition (updateTargetVelocity cfg s) = cameraPosition s"
  "cameraQuaternion (updateTargetVelocity cfg s) = cameraQuaternion s"
  by (simp_all add: updateTargetVelocity_def Let_def split_def)

lemma square_convex:
  fixes a b k :: real
  assumes "0 \<le> k" and "k \<le> 1"
  shows "(a + (b - a) * k) * (a + (b - a) * k) \<le> (1 - k) * (a * a) + k * (b * b)"
proof -
  have "(1 - k) * (a * a) + k * (b * b) - (a + (b - a) * k) * (a + (b - a) * k)
          = (k * (1 - k)) * ((a - b) * (a - b))"
    by (simp add: algebra_simps)
  moreover have "0 \<le> k * (1 - k)"
    using assms by (intro mult_nonneg_nonneg) simp_all
  then have "0 \<le> (k * (1 - k)) * ((a - b) * (a - b))"
    by (rule mult_nonneg_nonneg) (rule zero_le_square)
  ultimately show ?thesis by linarith
qed

lemma lengthSq_lerp:
  assumes "0 \<le> k" and "k \<le> 1"
  shows "lengthSq (lerp v t k) \<le> (1 - k) * lengthSq v + k * lengthSq t"
proof -
  have "lengthSq (lerp v t k) =
          (vx v + (vx t - vx v) * k) * (vx v + (vx t - vx v) * k) +
          (vy v + (vy t - vy v) * k) * (vy v + (vy t - vy v) * k) +
          (vz v + (vz t - vz v) * k) * (vz v + (vz t - vz v) * k)"
    by (simp add: lerp_def lengthSq_def)
  also have "\<dots> \<le> ((1 - k) * (vx v * vx v) + k * (vx t * vx t)) +
                   ((1 - k) * (vy v * vy v) + k * (vy t * vy t)) +
                   ((1 - k) * (vz v * vz v) + k * (vz t * vz t))"
    by (intro add_mono square_convex assms)
  also have "\<dots> = (1 - k) * lengthSq v + k * lengthSq t"
    by (simp add: lengthSq_def algebra_simps)
  finally show ?thesis .
qed

lemma length_v_lerp:
  assumes "0 \<le> k" and "k \<le> 1" and "length_v v \<le> m" and "length_v t \<le> m"
  shows "length_v (lerp v t k) \<le> m"
proof -
  have m: "0 \<le> m" using assms(3) length_v_nonneg [of v] by linarith
  have v: "lengthSq v \<le> m * m" and t: "lengthSq t \<le> m * m"
    using assms(3,4) m by (simp_all add: length_v_le_iff)
  have "(1 - k) * lengthSq v \<le> (1 - k) * (m * m)"
    using v assms(2) by (intro mult_left_mono) simp_all
  moreover have "k * lengthSq t \<le> k * (m * m)"
    using t assms(1) by (intro mult_left_mono) simp_all
  moreover have "(1 - k) * (m * m) + k * (m * m) = m * m" by (simp add: algebra_simps)
  ultimately have "lengthSq (lerp v t k) \<le> m * m"
    using lengthSq_lerp [OF assms(1,2), of v t] by linarith
  then show ?thesis using m by (simp add: length_v_le_iff)
qed

lemma length_v_shrink:
  assumes "\<bar>k\<bar> \<le> 1"
  shows "length_v (multiplyScalar v k) \<le> length_v v"
proof -
  have "\<bar>k\<bar> * length_v v \<le> 1 * length_v v"
    using assms length_v_nonneg [of v] by (rule mult_right_mono)
  then show ?thesis by (simp add: length_v_multiplyScalar)
qed

lemma integrate_within_speed:
  assumes "0 \<le> acceleration cfg" and "0 \<le> deceleration cfg" and "0 \<le> dt"
    and "length_v v \<le> m" and "length_v t \<le> m"
  shows "length_v (integrate cfg dt v t) \<le> m"
proof (cases "lengthSq t > 0")
  case True
  have "- acceleration cfg * dt \<le> 0"
    using assms(1,3) by (simp add: mult_nonneg_nonneg)
  then have "exp (- acceleration cfg * dt) \<le> 1" by (simp only: exp_le_one_iff)
  then have "0 \<le> 1 - exp (- acceleration cfg * dt)" and "1 - exp (- acceleration cfg * dt) \<le> 1"
    by simp_all
  then have "length_v (lerp v t (1 - exp (- acceleration cfg * dt))) \<le> m"
    using assms(4,5) by (rule length_v_lerp)
  then show ?thesis using True by (simp add: integrate_def Let_def)
next
  case False
  have "- deceleration cfg * dt \<le> 0"
    using assms(2,3) by (simp add: mult_nonneg_nonneg)
  then have "exp (- deceleration cfg * dt) \<le> 1" by (simp only: exp_le_one_iff)
  then have "\<bar>exp (- deceleration cfg * dt)\<bar> \<le> 1" by simp
  then have "length_v (multiplyScalar v (exp (- deceleration cfg * dt))) \<le> length_v v"
    by (rule length_v_shrink)
  then show ?thesis using False assms(4) by (simp add: integrate_def Let_def)
qed

lemma lengthSq_sub_pushBack:
  assumes "lengthSq n = 1"
  shows "lengthSq (sub_v v (multiplyScalar n (dot v n))) = lengthSq v - dot v n * dot v n"
proof -
  have "lengthSq (sub_v v (multiplyScalar n (dot v n)))
          = lengthSq v - 2 * (dot v n * dot v n) + dot v n * dot v n * lengthSq n"
    by (simp add: vec_defs algebra_simps)
  with assms show ?thesis by simp
qed

lemma length_v_sub_pushBack:
  assumes "length_v n = 1"
  shows "length_v (sub_v v (multiplyScalar n (dot v n))) \<le> length_v v"
proof -
  from assms have "lengthSq n = 1" using length_v_sq [of n] by simp
  then have "lengthSq (sub_v v (multiplyScalar n (dot v n))) \<le> lengthSq v"
    by (simp add: lengthSq_sub_pushBack)
  then show ?thesis by (simp add: length_v_def)
qed

lemma dot_zero_right: "dot v (Vector3 0 0 0) = 0"
  by (simp add: dot_def)

lemma length_v_normalize_cases:
  "normalize_v a = Vector3 0 0 0 \<or> length_v (normalize_v a) = 1"
  by (cases "a = Vector3 0 0 0") (simp_all add: normalize_v_zero length_v_normalize)

lemma resolveVelocity_within:
  assumes "\<bar>wallSlideForce cfg\<bar> \<le> 1"
  shows "length_v (resolveVelocity cfg (normalize_v a) v) \<le> length_v v"
proof (cases "dot v (normalize_v a) < 0")
  case True
  then have "normalize_v a \<noteq> Vector3 0 0 0" by (auto simp: dot_zero_right)
  then have u: "length_v (normalize_v a) = 1" using length_v_normalize_cases by blast
  have "resolveVelocity cfg (normalize_v a) v =
          multiplyScalar (sub_v v (multiplyScalar (normalize_v a) (dot v (normalize_v a))))
            (wallSlideForce cfg)"
    using u True by (rule resolveVelocity_unit)
  then have "length_v (resolveVelocity cfg (normalize_v a) v)
               \<le> length_v (sub_v v (multiplyScalar (normalize_v a) (dot v (normalize_v a))))"
    using length_v_shrink [OF assms] by simp
  also have "\<dots> \<le> length_v v" using u by (rule length_v_sub_pushBack)
  finally show ?thesis .
next
  case False
  then show ?thesis by (simp add: resolveVelocity_def Let_def)
qed

lemma checkCollision_velocity:
  "snd (snd (checkCollision cfg rc p v)) = v \<or>
   (\<exists>a. snd (snd (checkCollision cfg rc p v)) = resolveVelocity cfg (normalize_v a) v)"
  by (auto simp: checkCollision_def Let_def split: prod.splits)

lemma checkCollision_within:
  assumes "\<bar>wallSlideForce cfg\<bar> \<le> 1"
  shows "length_v (snd (snd (checkCollision cfg rc p v))) \<le> length_v v"
  using checkCollision_velocity [of cfg rc p v] resolveVelocity_within [OF assms] by auto

lemma animate_fields:
  "isInteracting (animate cfg rc now s) = isInteracting s"
  "targetVelocity (animate cfg rc now s) = targetVelocity s"
  "activeKeys (animate cfg rc now s) = activeKeys s"
  "cameraQuaternion (animate cfg rc now s) = cameraQuaternion s"
  "lastTime (animate cfg rc now s) = now"
  by (simp_all add: animate_def Let_def split: prod.splits)

lemma animate_velocity:
  "velocity (animate cfg rc now s) =
     (let dt = frameDelta now (lastTime s);
          v1 = integrate cfg dt (velocity s) (targetVelocity s)
      in if lengthSq v1 > 1 / 10000 \<and> \<not> isInteracting s
         then snd (snd (checkCollision cfg rc (add_v (cameraPosition s) (multiplyScalar v1 dt)) v1))
         else v1)"
  by (simp add: animate_def Let_def split: prod.splits)

lemma frameDelta_nonneg: "lastT \<le> now \<Longrightarrow> 0 \<le> frameDelta now lastT"
  by (simp add: frameDelta_def)

lemma animate_within_speed:
  assumes "0 \<le> acceleration cfg" and "0 \<le> deceleration cfg" and "\<bar>wallSlideForce cfg\<bar> \<le> 1"
    and "lastTime s \<le> now" and "withinSpeed cfg s"
  shows "withinSpeed cfg (animate cfg rc now s)"
proof -
  let ?dt = "frameDelta now (lastTime s)"
  let ?v1 = "integrate cfg ?dt (velocity s) (targetVelocity s)"
  have dt: "0 \<le> ?dt" using assms(4) by (rule frameDelta_nonneg)
  have v1: "length_v ?v1 \<le> moveSpeed cfg"
    using assms(1,2) dt assms(5) by (intro integrate_within_speed) (simp_all add: withinSpeed_def)
  have "length_v (velocity (animate cfg rc now s)) \<le> moveSpeed cfg"
    using v1 checkCollision_within [OF assms(3), of rc _ ?v1]
    by (simp add: animate_velocity Let_def) (meson order_trans)
  then show ?thesis using assms(5) by (simp add: withinSpeed_def animate_fields)
qed


lemma handleKeyDown_within_speed:
  assumes "0 \<le> moveSpeed cfg" and "withinSpeed cfg s"
  shows "withinSpeed cfg (handleKeyDown cfg code s)"
  using assms target_within_speed [OF assms(1)]
  by (simp add: handleKeyDown_def withinSpeed_def updateTargetVelocity_velocity)

lemma handleKeyUp_within_speed:
  assumes "0 \<le> moveSpeed cfg" and "withinSpeed cfg s"
  shows "withinSpeed cfg (handleKeyUp cfg code s)"
  using assms target_within_speed [OF assms(1)]
  by (simp add: handleKeyUp_def withinSpeed_def updateTargetVelocity_velocity)

lemma step_within_speed:
  assumes "in_range cfg" and "withinSpeed cfg s" and "clockAdvances s e"
  shows "withinSpeed cfg (step cfg rc s e)"
proof -
  from assms(1) have m: "0 \<le> moveSpeed cfg" and a: "0 \<le> acceleration cfg"
    and d: "0 \<le> deceleration cfg" and w: "\<bar>wallSlideForce cfg\<bar> \<le> 1"
    by (simp_all add: in_range_def)
  show ?thesis
  proof (cases e)
    case (KeyDown code)
    then show ?thesis using handleKeyDown_within_speed [OF m assms(2)] by simp
  next
    case (KeyUp code)
    then show ?thesis using handleKeyUp_within_speed [OF m assms(2)] by simp
  next
    case (Frame now)
    then have "lastTime s \<le> now" using assms(3) by simp
    then show ?thesis using Frame animate_within_speed [OF a d w _ assms(2)] by simp
  next
    case (SetInteracting b now)
    then have "lastTime (s\<lparr>isInteracting := b\<rparr>) \<le> now" using assms(3) by simp
    moreover have "withinSpeed cfg (s\<lparr>isInteracting := b\<rparr>)"
      using assms(2) by (simp add: withinSpeed_def)
    ultimately show ?thesis
      using SetInteracting animate_within_speed [OF a d w] by (simp add: setInteracting_def)
  qed
qed

text \<open>
  In exact arithmetic, with a configuration inside the ranges of the panel: the target
  velocity computed from any held keys and any orientation is no longer than \<open>moveSpeed\<close>;
  integration with \<open>dt \<ge> 0\<close>, collision resolution, and every event whose clock reading is
  not before \<open>lastTime\<close> keep both speeds within it. The clamp of the component rescales
  to \<open>moveSpeed\<close> in binary floating point, where the rounded length can exceed
  \<open>moveSpeed\<close> in the last place; nothing is said here about the rounded values.
\<close>

lemma speed_never_exceeds_moveSpeed:
  assumes "in_range cfg"
  shows "length_v (targetVelocity (updateTargetVelocity cfg u)) \<le> moveSpeed cfg \<and>
         (withinSpeed cfg s \<and> 0 \<le> dt \<longrightarrow>
            length_v (integrate cfg dt (velocity s) (targetVelocity s)) \<le> moveSpeed cfg) \<and>
         (length_v v \<le> moveSpeed cfg \<longrightarrow>
            length_v (snd (snd (checkCollision cfg rc p v))) \<le> moveSpeed cfg) \<and>
         (withinSpeed cfg s \<and> clockAdvances s e \<longrightarrow> withinSpeed cfg (step cfg rc s e))"
proof -
  from assms have m: "0 \<le> moveSpeed cfg" and a: "0 \<le> acceleration cfg"
    and d: "0 \<le> deceleration cfg" and w: "\<bar>wallSlideForce cfg\<bar> \<le> 1"
    by (simp_all add: in_range_def)
  have 1: "length_v (targetVelocity (updateTargetVelocity cfg u)) \<le> moveSpeed cfg"
    using m by (rule target_within_speed)
  have 2: "withinSpeed cfg s \<and> 0 \<le> dt \<longrightarrow>
            length_v (integrate cfg dt (velocity s) (targetVelocity s)) \<le> moveSpeed cfg"
    using integrate_within_speed [OF a d] by (simp add: withinSpeed_def)
  have 3: "length_v v \<le> moveSpeed cfg \<longrightarrow>
            length_v (snd (snd (checkCollision cfg rc p v))) \<le> moveSpeed cfg"
    using checkCollision_within [OF w, of rc p v] by linarith
  have 4: "withinSpeed cfg s \<and> clockAdvances s e \<longrightarrow> withinSpeed cfg (step cfg rc s e)"
    using step_within_speed [OF assms] by blast
  from 1 2 3 4 show ?thesis by blast
qed

section \<open>Key events while suspended\<close>

lemma handleKeyDown_suspended: "isInteracting s \<Longrightarrow> handleKeyDown cfg code s = s"
  by (simp add: handleKeyDown_def)

lemma handleKeyUp_activeKeys: "activeKeys (handleKeyUp cfg code s) = activeKeys s - {code}"
  by (simp add: handleKeyUp_def updateTargetVelocity_other)

lemma handleKey_isInteracting:
  "isInteracting (handleKeyDown cfg code s) = isInteracting s"
  "isInteracting (handleKeyUp cfg code s) = isInteracting s"
  by (simp_all add: handleKeyDown_def handleKeyUp_def updateTargetVelocity_other)

lemma setInteracting_fields:
  "isInteracting (setInteracting cfg rc b now s) = b"
  "activeKeys (setInteracting cfg rc b now s) = activeKeys s"
  "targetVelocity (setInteracting cfg rc b now s) = targetVelocity s"
  by (simp_all add: setInteracting_def animate_fields)

lemma step_suspended:
  assumes "isInteracting s" and "\<not> isPropertyChange e"
  shows "isInteracting (step cfg rc s e) \<and>
         activeKeys (step cfg rc s e) = activeKeys s - released [e]"
  using assms
  by (cases e) (simp_all add: handleKeyDown_suspended handleKeyUp_activeKeys
        handleKey_isInteracting animate_fields)

lemma released_Cons: "released (e # es) = released [e] \<union> released es"
  by (cases e) simp_all

lemma run_suspended:
  assumes "isInteracting s" and "list_all (\<lambda>e. \<not> isPropertyChange e) es"
  shows "isInteracting (run cfg rc s es) \<and>
         activeKeys (run cfg rc s es) = activeKeys s - released es"
  using assms
proof (induction es arbitrary: s)
  case Nil
  then show ?case by (simp add: run_def)
next
  case (Cons e es)
  from Cons.prems have e: "\<not> isPropertyChange e"
    and es: "list_all (\<lambda>e. \<not> isPropertyChange e) es" by simp_all
  note st = step_suspended [OF Cons.prems(1) e, of cfg rc]
  from st have i: "isInteracting (step cfg rc s e)" by simp
  from Cons.IH [OF i es] st have
    "isInteracting (run cfg rc (step cfg rc s e) es) \<and>
     activeKeys (run cfg rc (step cfg rc s e) es) = activeKeys s - released [e] - released es"
    by simp
  moreover have "run cfg rc s (e # es) = run cfg rc (step cfg rc s e) es"
    by (simp add: run_def)
  moreover have "activeKeys s - released [e] - released es = activeKeys s - released (e # es)"
    using released_Cons [of e es] by blast
  ultimately show ?case by simp
qed

text \<open>
  C8. Across key-down, key-up and frame events, and the changes of \<open>isInteracting\<close>:
  a key-down received while suspended leaves the held set as it is; a key-up removes
  its code from the held set in every state, suspended or not; hence after any sequence
  of key and frame events received while suspended, followed by the resumption, the
  held set is the one at the start without the codes released in between, and no
  released key is held after resuming.
\<close>

theorem suspended_keys_do_not_stick:
  "(isInteracting s \<longrightarrow> activeKeys (step cfg rc s (KeyDown code)) = activeKeys s) \<and>
   code \<notin> activeKeys (step cfg rc s (KeyUp code)) \<and>
   activeKeys (step cfg rc s (KeyUp code)) = activeKeys s - {code} \<and>
   (isInteracting s \<and> list_all (\<lambda>e. \<not> isPropertyChange e) es \<longrightarrow>
      activeKeys (step cfg rc (run cfg rc s es) (SetInteracting False now))
        = activeKeys s - released es)"
proof -
  have 1: "isInteracting s \<longrightarrow> activeKeys (step cfg rc s (KeyDown code)) = activeKeys s"
    by (simp add: handleKeyDown_suspended)
  have 2: "activeKeys (step cfg rc s (KeyUp code)) = activeKeys s - {code}"
    by (simp add: handleKeyUp_activeKeys)
  have 3: "isInteracting s \<and> list_all (\<lambda>e. \<not> isPropertyChange e) es \<longrightarrow>
      activeKeys (step cfg rc (run cfg rc s es) (SetInteracting False now))
        = activeKeys s - released es"
    using run_suspended [of s es cfg rc] by (simp add: setInteracting_fields)
  from 1 2 3 show ?thesis by simp
qed

theorem suspended_keys_do_not_stick_witness:
  "isInteracting suspended \<and>
   list_all (\<lambda>e. \<not> isPropertyChange e) [KeyDown ''KeyD'', KeyUp ''KeyW'', Frame 16] \<and>
   activeKeys (step defaults emptyScene suspended (KeyDown ''KeyD'')) = {''KeyW'', ''KeyA''} \<and>
   activeKeys (step defaults emptyScene
       (run defaults emptyScene suspended [KeyDown ''KeyD'', KeyUp ''KeyW'', Frame 16])
       (SetInteracting False 32)) = {''KeyA''}"
proof -
  have h1: "isInteracting suspended" by (simp add: suspended_def)
  have h2: "list_all (\<lambda>e. \<not> isPropertyChange e) [KeyDown ''KeyD'', KeyUp ''KeyW'', Frame 16]"
    by simp
  note r = suspended_keys_do_not_stick [where s = suspended and cfg = defaults
      and rc = emptyScene and code = "''KeyD''"
      and es = "[KeyDown ''KeyD'', KeyUp ''KeyW'', Frame 16]" and now = 32]
  have a: "activeKeys (step defaults emptyScene suspended (KeyDown ''KeyD'')) = {''KeyW'', ''KeyA''}"
    using r h1 by (simp add: suspended_def)
  have b: "activeKeys (step defaults emptyScene
       (run defaults emptyScene suspended [KeyDown ''KeyD'', KeyUp ''KeyW'', Frame 16])
       (SetInteracting False 32)) = {''KeyA''}"
    using r h1 h2 by (auto simp: suspended_def)
  from h1 h2 a b show ?thesis by blast
qed

section \<open>Frames with a zero or negative delta\<close>

lemma checkCollision_cases:
  "checkCollision cfg rc p v = (False, p, v) \<or>
   (\<exists>p' v'. checkCollision cfg rc p v = (True, p', v'))"
  by (simp add: checkCollision_def Let_def split: prod.splits)

lemma animate_cameraPosition:
  "cameraPosition (animate cfg rc now s) =
     (let dt = frameDelta now (lastTime s);
          v1 = integrate cfg dt (velocity s) (targetVelocity s);
          newPosition = add_v (cameraPosition s) (multiplyScalar v1 dt)
      in if lengthSq v1 > 1 / 10000 \<and> \<not> isInteracting s \<and>
            \<not> fst (checkCollision cfg rc newPosition v1)
         then newPosition else cameraPosition s)"
proof -
  let ?dt = "frameDelta now (lastTime s)"
  let ?v1 = "integrate cfg ?dt (velocity s) (targetVelocity s)"
  let ?p = "add_v (cameraPosition s) (multiplyScalar ?v1 ?dt)"
  from checkCollision_cases [of cfg rc ?p ?v1] show ?thesis
  proof
    assume "checkCollision cfg rc ?p ?v1 = (False, ?p, ?v1)"
    then show ?thesis by (simp add: animate_def Let_def)
  next
    assume "\<exists>p' v'. checkCollision cfg rc ?p ?v1 = (True, p', v')"
    then obtain p' v' where "checkCollision cfg rc ?p ?v1 = (True, p', v')" by blast
    then show ?thesis by (simp add: animate_def Let_def)
  qed
qed








section \<open>Entering the suspended state\<close>




lemma lerp_same: "lerp a a k = a"
  by (cases a) (simp add: lerp_def)

lemma integrate_at_target: "integrate cfg dt a a = a"
proof (cases "lengthSq a > 0")
  case True
  then show ?thesis by (simp add: integrate_def lerp_same)
next
  case False
  then have "lengthSq a = 0" using lengthSq_nonneg [of a] by linarith
  then have "a = Vector3 0 0 0" by (simp add: lengthSq_eq_0_iff)
  then show ?thesis by (simp add: integrate_def lengthSq_def multiplyScalar_def)
qed






section \<open>A frame that collides\<close>

lemma sqrt2_bounds: "5 / 4 < sqrt 2" "sqrt 2 < 3 / 2"
proof -
  have "sqrt ((5 / 4)\<^sup>2) < sqrt 2" by (simp only: real_sqrt_less_iff) (simp add: power2_eq_square)
  then show "5 / 4 < sqrt 2" by simp
  have "sqrt 2 < sqrt ((3 / 2)\<^sup>2)" by (simp only: real_sqrt_less_iff) (simp add: power2_eq_square)
  then show "sqrt 2 < 3 / 2" by simp
qed

lemma length_v_diagonal:
  "length_v (Vector3 1 0 1) = sqrt 2" "length_v (Vector3 (- 1) 0 1) = sqrt 2"
  "length_v (Vector3 1 0 (- 1)) = sqrt 2" "length_v (Vector3 (- 1) 0 (- 1)) = sqrt 2"
  by (simp_all add: length_v_def lengthSq_def)

lemma normalize_v_diagonal:
  "normalize_v (Vector3 1 0 1) = Vector3 (1 / sqrt 2) 0 (1 / sqrt 2)"
  "normalize_v (Vector3 (- 1) 0 1) = Vector3 (- (1 / sqrt 2)) 0 (1 / sqrt 2)"
  "normalize_v (Vector3 1 0 (- 1)) = Vector3 (1 / sqrt 2) 0 (- (1 / sqrt 2))"
  "normalize_v (Vector3 (- 1) 0 (- 1)) = Vector3 (- (1 / sqrt 2)) 0 (- (1 / sqrt 2))"
  by (simp_all add: normalize_v_def length_v_diagonal divideScalar_def multiplyScalar_def)

lemma rays_explicit:
  "rays = [Vector3 1 0 0, Vector3 (- 1) 0 0, Vector3 0 0 1, Vector3 0 0 (- 1),
           Vector3 (1 / sqrt 2) 0 (1 / sqrt 2), Vector3 (- (1 / sqrt 2)) 0 (1 / sqrt 2),
           Vector3 (1 / sqrt 2) 0 (- (1 / sqrt 2)), Vector3 (- (1 / sqrt 2)) 0 (- (1 / sqrt 2))]"
  by (simp add: rays_def normalize_v_diagonal)

lemma castRay_northWall_away:
  "0 \<le> vz d \<Longrightarrow> castRay northWall cd p acc d = acc"
  by (cases acc) (simp add: northWall_def)

lemma castRay_northWall_far:
  assumes "cd \<le> (- (99 / 10) - vz p) / vz d"
  shows "castRay northWall cd p acc d = acc"
  using assms by (cases acc) (simp add: northWall_def Let_def)

lemma diagonal_far: "(1::real) / 2 \<le> (- (99 / 10) - (- (19 / 2))) / (- (1 / sqrt 2))"
proof -
  have "(- (99 / 10) - (- (19 / 2))) / (- (1 / sqrt 2)) = (2 / 5) * sqrt 2"
    by (simp add: field_simps)
  then show ?thesis using sqrt2_bounds(1) by simp
qed

lemma castRay_nearWall_front:
  "castRay northWall (1 / 2) (Vector3 0 (17 / 10) (- (19 / 2))) (b, a) (Vector3 0 0 (- 1))
     = (True, add_v a (Vector3 0 0 1))"
  by (simp add: northWall_def Let_def vec_defs normalize_v_axis_z)

lemma probe_nearWall:
  "probe northWall (1 / 2) (Vector3 0 (17 / 10) (- (19 / 2))) = (True, Vector3 0 0 1)"
proof -
  let ?p = "Vector3 0 (17 / 10) (- (19 / 2))"
  have d1: "castRay northWall (1 / 2) ?p acc (Vector3 (1 / sqrt 2) 0 (- (1 / sqrt 2))) = acc" for acc
    using diagonal_far by (intro castRay_northWall_far) simp_all
  have d2: "castRay northWall (1 / 2) ?p acc (Vector3 (- (1 / sqrt 2)) 0 (- (1 / sqrt 2))) = acc" for acc
    using diagonal_far by (intro castRay_northWall_far) simp_all
  show ?thesis
    by (simp add: probe_def rays_explicit castRay_northWall_away castRay_nearWall_front d1 d2
          del: castRay.simps) (simp add: add_v_def)
qed

lemma checkCollision_nearWall:
  "checkCollision defaults northWall (Vector3 0 (17 / 10) (- (19 / 2))) (Vector3 0 0 (- (14 / 5)))
     = (True, Vector3 0 (17 / 10) (- (181 / 20)), Vector3 0 0 0)"
proof -
  have cd: "collisionDistance defaults = 1 / 2" by (simp add: defaults_def)
  have r: "resolveVelocity defaults (Vector3 0 0 1) (Vector3 0 0 (- (14 / 5))) = Vector3 0 0 0"
    by (simp add: resolveVelocity_def Let_def projectOnPlane_def projectOnVector_def vec_defs)
  show ?thesis
    by (simp add: checkCollision_def cd probe_nearWall normalize_v_axis_z r Let_def)
       (simp add: vec_defs)
qed

text \<open>Whatever the scene, a frame whose probe reports a collision leaves the camera where it was.\<close>

lemma colliding_frame_keeps_camera:
  assumes "fst (checkCollision cfg rc
             (add_v (cameraPosition s)
                (multiplyScalar
                   (integrate cfg (frameDelta now (lastTime s)) (velocity s) (targetVelocity s))
                   (frameDelta now (lastTime s))))
             (integrate cfg (frameDelta now (lastTime s)) (velocity s) (targetVelocity s)))"
  shows "cameraPosition (animate cfg rc now s) = cameraPosition s"
  using assms by (simp add: animate_cameraPosition Let_def)

text \<open>
  C3. A frame whose probe reports a collision should commit the proposed position pushed
  out along the normal by \<open>collisionDistance - 0.05\<close>. The code does not: walking at
  \<open>(0, 0, -2.8)\<close> from \<open>z = -9.22\<close> towards the wall face at \<open>z = -9.9\<close>, a frame of 0.1 s
  proposes \<open>z = -9.5\<close>; \<open>checkCollision\<close> reports the collision, resolves the velocity to
  zero and pushes the position it was given to \<open>z = -9.05\<close>; \<open>animate\<close> copies the
  position only when no collision is reported, so the pushed position is dropped and the
  camera stays at \<open>z = -9.22\<close>.
\<close>

theorem collision_frame_discards_pushed_position:
  "checkCollision defaults northWall
      (add_v (cameraPosition approaching)
         (multiplyScalar (Vector3 0 0 (- (28 / 10))) (frameDelta 100 (lastTime approaching))))
      (Vector3 0 0 (- (28 / 10)))
     = (True, Vector3 0 (17 / 10) (- (905 / 100)), Vector3 0 0 0) \<and>
   velocity (animate defaults northWall 100 approaching) = Vector3 0 0 0 \<and>
   cameraPosition (animate defaults northWall 100 approaching) = cameraPosition approaching \<and>
   cameraPosition (animate defaults northWall 100 approaching)
     = Vector3 0 (17 / 10) (- (922 / 100))"
proof -
  have dt: "frameDelta 100 (lastTime approaching) = 1 / 10"
    by (simp add: frameDelta_def approaching_def initial_def)
  have va: "velocity approaching = Vector3 0 0 (- (14 / 5))"
    and ta: "targetVelocity approaching = Vector3 0 0 (- (14 / 5))"
    and pa: "cameraPosition approaching = Vector3 0 (17 / 10) (- (461 / 50))"
    and n: "\<not> isInteracting approaching"
    by (simp_all add: approaching_def initial_def)
  have p: "add_v (Vector3 0 (17 / 10) (- (461 / 50))) (multiplyScalar (Vector3 0 0 (- (14 / 5))) (1 / 10))
             = Vector3 0 (17 / 10) (- (19 / 2))"
    by (simp add: vec_defs)
  have big: "lengthSq (Vector3 0 0 (- (14 / 5))) > 1 / 10000" by (simp add: lengthSq_def)
  have v: "velocity (animate defaults northWall 100 approaching) = Vector3 0 0 0"
    using big n
    by (simp add: animate_velocity dt va ta pa integrate_at_target p checkCollision_nearWall Let_def)
  have c: "cameraPosition (animate defaults northWall 100 approaching) = cameraPosition approaching"
    using big n
    by (simp add: animate_cameraPosition dt va ta pa integrate_at_target p checkCollision_nearWall Let_def)
  have k: "checkCollision defaults northWall
      (add_v (cameraPosition approaching)
         (multiplyScalar (Vector3 0 0 (- (28 / 10))) (frameDelta 100 (lastTime approaching))))
      (Vector3 0 0 (- (28 / 10)))
     = (True, Vector3 0 (17 / 10) (- (905 / 100)), Vector3 0 0 0)"
    by (simp add: dt pa p checkCollision_nearWall)
  from k v c pa show ?thesis by simp
qed

section \<open>The probe\<close>

lemma add_v_assoc: "add_v (add_v a b) c = add_v a (add_v b c)"
  by (simp add: add_v_def)

lemma add_v_zero_right: "add_v a (Vector3 0 0 0) = a"
  by (cases a) (simp add: add_v_def)

lemma add_v_zero_left: "add_v (Vector3 0 0 0) a = a"
  by (cases a) (simp add: add_v_def)

lemma foldl_castRay:
  assumes "meshScene rc"
  shows "foldl (castRay rc cd p) (b, a) ds =
           (b \<or> List.map_filter (nearHit rc cd p) ds \<noteq> [],
            add_v a (sum_v (map (\<lambda>hit. normalize_v (sub_v p (point hit)))
                              (List.map_filter (nearHit rc cd p) ds))))"
proof (induction ds arbitrary: b a)
  case Nil
  show ?case by (simp add: map_filter_simps add_v_zero_right)
next
  case (Cons d ds)
  show ?case
  proof (cases "rc p d")
    case None
    then show ?thesis by (simp add: Cons.IH map_filter_simps nearHit_def)
  next
    case (Some hit)
    then have f: "face hit" using assms by (simp add: meshScene_def)
    show ?thesis
    proof (cases "distance hit < cd")
      case True
      then show ?thesis
        using Some f by (simp add: Cons.IH map_filter_simps nearHit_def add_v_assoc)
    next
      case False
      then show ?thesis
        using Some by (simp add: Cons.IH map_filter_simps nearHit_def)
    qed
  qed
qed

lemma map_filter_nonempty:
  "List.map_filter f xs \<noteq> [] \<longleftrightarrow> (\<exists>x \<in> set xs. f x \<noteq> None)"
  by (induction xs) (auto simp: map_filter_simps split: option.splits)


lemma probe_sum:
  assumes "meshScene rc"
  shows "probe rc cd p =
           (collidingHits rc cd p \<noteq> [],
            sum_v (map (\<lambda>hit. normalize_v (sub_v p (point hit))) (collidingHits rc cd p)))"
  by (simp add: probe_def foldl_castRay [OF assms] collidingHits_def add_v_zero_left)

lemma nearHit_Some_iff:
  "nearHit rc cd p d \<noteq> None \<longleftrightarrow> (\<exists>hit. rc p d = Some hit \<and> distance hit < cd)"
  by (simp add: nearHit_def split: option.splits)

lemma collidingHits_nonempty:
  "collidingHits rc cd p \<noteq> [] \<longleftrightarrow>
     (\<exists>d \<in> set rays. \<exists>hit. rc p d = Some hit \<and> distance hit < cd)"
  by (simp only: collidingHits_def map_filter_nonempty nearHit_Some_iff)

lemma rays_unit_level: "list_all (\<lambda>d. vy d = 0 \<and> length_v d = 1) rays"
proof -
  have "length_v (Vector3 (1 / sqrt 2) 0 (1 / sqrt 2)) = 1"
    "length_v (Vector3 (- (1 / sqrt 2)) 0 (1 / sqrt 2)) = 1"
    "length_v (Vector3 (1 / sqrt 2) 0 (- (1 / sqrt 2))) = 1"
    "length_v (Vector3 (- (1 / sqrt 2)) 0 (- (1 / sqrt 2))) = 1"
    by (simp_all add: length_v_def lengthSq_def)
  then show ?thesis by (simp add: rays_explicit length_v_axis_x length_v_axis_z)
qed

lemma rays_distinct: "distinct rays"
proof -
  have "sqrt 2 \<noteq> 1" using sqrt2_bounds(1) by simp
  then show ?thesis by (simp add: rays_explicit)
qed

text \<open>
  C9. The probe casts eight distinct rays, the four axis directions and the four
  normalised diagonals, each horizontal and of unit length. For a scene of meshes it
  reports a collision exactly when, for some ray, the nearest intersection is closer
  than the collision distance; the vector it accumulates is the sum, over the colliding
  rays, of the normalised vectors from the intersection point to the probed position;
  and on a collision \<open>checkCollision\<close> works with the normalisation of that sum as its
  normal.
\<close>

theorem probe_casts_eight_rays_and_sums:
  assumes "meshScene rc"
  shows "length rays = 8 \<and> distinct rays \<and>
         rays = [Vector3 1 0 0, Vector3 (- 1) 0 0, Vector3 0 0 1, Vector3 0 0 (- 1),
                 Vector3 (1 / sqrt 2) 0 (1 / sqrt 2), Vector3 (- (1 / sqrt 2)) 0 (1 / sqrt 2),
                 Vector3 (1 / sqrt 2) 0 (- (1 / sqrt 2)),
                 Vector3 (- (1 / sqrt 2)) 0 (- (1 / sqrt 2))] \<and>
         list_all (\<lambda>d. vy d = 0 \<and> length_v d = 1) rays \<and>
         (fst (probe rc cd p) \<longleftrightarrow>
            (\<exists>d \<in> set rays. \<exists>hit. rc p d = Some hit \<and> distance hit < cd)) \<and>
         fst (checkCollision cfg rc p v) = fst (probe rc (collisionDistance cfg) p) \<and>
         snd (probe rc cd p) =
            sum_v (map (\<lambda>hit. normalize_v (sub_v p (point hit))) (collidingHits rc cd p)) \<and>
         (fst (probe rc (collisionDistance cfg) p) \<longrightarrow>
            checkCollision cfg rc p v =
              (True,
               add_v p (multiplyScalar (aggregateNormal rc (collisionDistance cfg) p)
                          (collisionDistance cfg - 5 / 100)),
               resolveVelocity cfg (aggregateNormal rc (collisionDistance cfg) p) v))"
proof -
  note ps = probe_sum [OF assms]
  have 1: "length rays = 8" by (simp add: rays_def)
  have 2: "fst (probe rc cd p) \<longleftrightarrow>
            (\<exists>d \<in> set rays. \<exists>hit. rc p d = Some hit \<and> distance hit < cd)"
    by (simp only: ps fst_conv collidingHits_nonempty)
  have 3: "fst (checkCollision cfg rc p v) = fst (probe rc (collisionDistance cfg) p)"
    by (simp add: checkCollision_def Let_def split: prod.splits)
  have 4: "snd (probe rc cd p) =
            sum_v (map (\<lambda>hit. normalize_v (sub_v p (point hit))) (collidingHits rc cd p))"
    by (simp only: ps snd_conv)
  have 5: "fst (probe rc (collisionDistance cfg) p) \<longrightarrow>
            checkCollision cfg rc p v =
              (True,
               add_v p (multiplyScalar (aggregateNormal rc (collisionDistance cfg) p)
                          (collisionDistance cfg - 5 / 100)),
               resolveVelocity cfg (aggregateNormal rc (collisionDistance cfg) p) v)"
    by (simp add: checkCollision_def ps aggregateNormal_def Let_def)
  from 1 rays_distinct rays_explicit rays_unit_level 2 3 4 5 show ?thesis by blast
qed

lemma meshScene_northWall: "meshScene northWall"
  by (auto simp: meshScene_def northWall_def Let_def split: if_splits)

theorem probe_casts_eight_rays_and_sums_witness:
  "meshScene northWall \<and>
   fst (probe northWall (collisionDistance defaults) (Vector3 0 (17 / 10) (- (19 / 2)))) \<and>
   aggregateNormal northWall (collisionDistance defaults) (Vector3 0 (17 / 10) (- (19 / 2)))
     = Vector3 0 0 1 \<and>
   checkCollision defaults northWall (Vector3 0 (17 / 10) (- (19 / 2))) (Vector3 0 0 (- (14 / 5)))
     = (True, Vector3 0 (17 / 10) (- (181 / 20)), Vector3 0 0 0)"
proof -
  have cd: "collisionDistance defaults = 1 / 2" by (simp add: defaults_def)
  note r = probe_casts_eight_rays_and_sums [OF meshScene_northWall,
      where cd = "1 / 2" and p = "Vector3 0 (17 / 10) (- (19 / 2))" and cfg = defaults
        and v = "Vector3 0 0 (- (14 / 5))"]
  have h: "fst (probe northWall (collisionDistance defaults) (Vector3 0 (17 / 10) (- (19 / 2))))"
    by (simp add: cd probe_nearWall)
  have "sum_v (map (\<lambda>hit. normalize_v (sub_v (Vector3 0 (17 / 10) (- (19 / 2))) (point hit)))
           (collidingHits northWall (1 / 2) (Vector3 0 (17 / 10) (- (19 / 2))))) = Vector3 0 0 1"
    using r by (simp add: probe_nearWall)
  then have n: "aggregateNormal northWall (collisionDistance defaults)
                  (Vector3 0 (17 / 10) (- (19 / 2))) = Vector3 0 0 1"
    by (simp add: aggregateNormal_def cd normalize_v_axis_z)
  from meshScene_northWall h n checkCollision_nearWall show ?thesis by simp
qed

section \<open>The height of the viewpoint\<close>

lemma vy_simps:
  "vy (add_v a b) = vy a + vy b"
  "vy (sub_v a b) = vy a - vy b"
  "vy (multiplyScalar a k) = vy a * k"
  "vy (set_y a k) = k"
  "vy (lerp a b k) = vy a + (vy b - vy a) * k"
  by (simp_all add: vec_defs set_y_def lerp_def)

lemma vy_normalize_v: "vy a = 0 \<Longrightarrow> vy (normalize_v a) = 0"
  by (simp add: normalize_v_def divideScalar_def vy_simps)

lemma target_level: "vy (targetVelocity (updateTargetVelocity cfg s)) = 0"
  by (simp add: updateTargetVelocity_def Let_def split_def vy_simps vy_normalize_v)

lemma integrate_level: "vy v = 0 \<Longrightarrow> vy t = 0 \<Longrightarrow> vy (integrate cfg dt v t) = 0"
  by (simp add: integrate_def Let_def vy_simps)

lemma castRay_level:
  assumes "levelScene rc" and "vy d = 0" and "vy a = 0"
  shows "vy (snd (castRay rc cd p (b, a) d)) = 0"
proof (cases "rc p d")
  case None
  then show ?thesis using assms(3) by simp
next
  case (Some hit)
  then have "vy (point hit) = vy p" using assms(1,2) by (simp add: levelScene_def)
  then have "vy (normalize_v (sub_v p (point hit))) = 0"
    by (intro vy_normalize_v) (simp add: vy_simps)
  then show ?thesis using Some assms(3) by (simp add: vy_simps)
qed

lemma foldl_castRay_level:
  assumes "levelScene rc"
  shows "list_all (\<lambda>d. vy d = 0) ds \<Longrightarrow> vy (snd acc) = 0 \<Longrightarrow>
         vy (snd (foldl (castRay rc cd p) acc ds)) = 0"
proof (induction ds arbitrary: acc)
  case Nil
  then show ?case by simp
next
  case (Cons d ds)
  obtain b a where acc: "acc = (b, a)" by (cases acc)
  from Cons.prems have d: "vy d = 0" and ds: "list_all (\<lambda>d. vy d = 0) ds" and a: "vy a = 0"
    by (simp_all add: acc)
  have "vy (snd (castRay rc cd p acc d)) = 0"
    unfolding acc using assms d a by (rule castRay_level)
  then have "vy (snd (foldl (castRay rc cd p) (castRay rc cd p acc d) ds)) = 0"
    using ds by (intro Cons.IH)
  then show ?case by simp
qed

lemma rays_level: "list_all (\<lambda>d. vy d = 0) rays"
  by (simp add: rays_explicit)

lemma probe_level: "levelScene rc \<Longrightarrow> vy (snd (probe rc cd p)) = 0"
  by (simp add: probe_def foldl_castRay_level rays_level)

lemma resolveVelocity_level:
  "vy n = 0 \<Longrightarrow> vy v = 0 \<Longrightarrow> vy (resolveVelocity cfg n v) = 0"
  by (simp add: resolveVelocity_def Let_def projectOnPlane_def projectOnVector_def vy_simps)

lemma checkCollision_level:
  assumes "levelScene rc" and "vy v = 0"
  shows "vy (snd (snd (checkCollision cfg rc p v))) = 0"
proof -
  obtain b a where pr: "probe rc (collisionDistance cfg) p = (b, a)"
    by (cases "probe rc (collisionDistance cfg) p")
  have "vy a = 0" using probe_level [OF assms(1), of "collisionDistance cfg" p] pr by simp
  then have "vy (normalize_v a) = 0" by (rule vy_normalize_v)
  then show ?thesis
    using assms(2) by (simp add: checkCollision_def pr Let_def resolveVelocity_level)
qed

lemma animate_level:
  assumes "levelScene rc" and "vy (velocity s) = 0" and "vy (targetVelocity s) = 0"
  shows "vy (velocity (animate cfg rc now s)) = 0 \<and>
         vy (cameraPosition (animate cfg rc now s)) = vy (cameraPosition s)"
proof -
  let ?v1 = "integrate cfg (frameDelta now (lastTime s)) (velocity s) (targetVelocity s)"
  have v1: "vy ?v1 = 0" using assms(2,3) by (rule integrate_level)
  have "vy (velocity (animate cfg rc now s)) = 0"
    using v1 checkCollision_level [OF assms(1) v1] by (simp add: animate_velocity Let_def)
  moreover have "vy (cameraPosition (animate cfg rc now s)) = vy (cameraPosition s)"
    using v1 by (simp add: animate_cameraPosition Let_def vy_simps)
  ultimately show ?thesis by simp
qed

lemma handleKey_cameraPosition:
  "cameraPosition (handleKeyDown cfg code s) = cameraPosition s"
  "cameraPosition (handleKeyUp cfg code s) = cameraPosition s"
  by (simp_all add: handleKeyDown_def handleKeyUp_def updateTargetVelocity_other)

lemma handleKey_velocity:
  "velocity (handleKeyDown cfg code s) = velocity s"
  "velocity (handleKeyUp cfg code s) = velocity s"
  by (simp_all add: handleKeyDown_def handleKeyUp_def updateTargetVelocity_velocity)

lemma handleKey_target_level:
  "vy (targetVelocity s) = 0 \<Longrightarrow> vy (targetVelocity (handleKeyDown cfg code s)) = 0"
  "vy (targetVelocity (handleKeyUp cfg code s)) = 0"
  by (simp_all add: handleKeyDown_def handleKeyUp_def target_level)

lemma step_level:
  assumes "levelScene rc" and "vy (velocity s) = 0" and "vy (targetVelocity s) = 0"
  shows "vy (velocity (step cfg rc s e)) = 0 \<and> vy (targetVelocity (step cfg rc s e)) = 0 \<and>
         vy (cameraPosition (step cfg rc s e)) = vy (cameraPosition s)"
proof (cases e)
  case (KeyDown code)
  then show ?thesis
    using assms(2,3) by (simp add: handleKey_cameraPosition handleKey_velocity handleKey_target_level)
next
  case (KeyUp code)
  then show ?thesis
    using assms(2) by (simp add: handleKey_cameraPosition handleKey_velocity handleKey_target_level)
next
  case (Frame now)
  then show ?thesis
    using animate_level [OF assms, of cfg now] assms(3) by (simp add: animate_fields)
next
  case (SetInteracting b now)
  have "vy (velocity (s\<lparr>isInteracting := b\<rparr>)) = 0" "vy (targetVelocity (s\<lparr>isInteracting := b\<rparr>)) = 0"
    using assms(2,3) by simp_all
  from animate_level [OF assms(1) this, of cfg now] SetInteracting assms(3)
  show ?thesis by (simp add: setInteracting_def animate_fields)
qed

lemma run_level:
  assumes "levelScene rc"
  shows "vy (velocity s) = 0 \<Longrightarrow> vy (targetVelocity s) = 0 \<Longrightarrow>
         vy (velocity (run cfg rc s es)) = 0 \<and> vy (targetVelocity (run cfg rc s es)) = 0 \<and>
         vy (cameraPosition (run cfg rc s es)) = vy (cameraPosition s)"
proof (induction es arbitrary: s)
  case Nil
  then show ?case by (simp add: run_def)
next
  case (Cons e es)
  note st = step_level [OF assms Cons.prems, of cfg e]
  from st have "vy (velocity (step cfg rc s e)) = 0" "vy (targetVelocity (step cfg rc s e)) = 0"
    by simp_all
  from Cons.IH [OF this] st show ?case by (simp add: run_def)
qed

text \<open>
  C10. The height of the viewpoint never changes. The target velocity computed from any
  keys and orientation has no vertical component; the rays are horizontal, so for a
  scene whose intersection points lie at the height of the ray origin the accumulated
  push direction and the normal have none either; and from a state whose velocity and
  target velocity are horizontal (as they are when the component is mounted) every
  frame, and every sequence of events, leaves both horizontal and the camera at the
  height it had.
\<close>

theorem height_is_preserved:
  assumes "levelScene rc" and "vy (velocity s) = 0" and "vy (targetVelocity s) = 0"
  shows "vy (targetVelocity (updateTargetVelocity cfg u)) = 0 \<and>
         list_all (\<lambda>d. vy d = 0) rays \<and>
         vy (snd (probe rc cd p)) = 0 \<and>
         vy (normalize_v (snd (probe rc cd p))) = 0 \<and>
         vy (velocity (animate cfg rc now s)) = 0 \<and>
         vy (cameraPosition (animate cfg rc now s)) = vy (cameraPosition s) \<and>
         vy (velocity (run cfg rc s es)) = 0 \<and>
         vy (targetVelocity (run cfg rc s es)) = 0 \<and>
         vy (cameraPosition (run cfg rc s es)) = vy (cameraPosition s)"
proof -
  have "vy (snd (probe rc cd p)) = 0" using assms(1) by (rule probe_level)
  moreover from this have "vy (normalize_v (snd (probe rc cd p))) = 0" by (rule vy_normalize_v)
  ultimately show ?thesis
    using target_level rays_level animate_level [OF assms] run_level [OF assms] by simp
qed

lemma levelScene_northWall: "levelScene northWall"
  by (auto simp: levelScene_def northWall_def Let_def vy_simps split: if_splits)

theorem height_is_preserved_witness:
  "levelScene northWall \<and> vy (velocity initial) = 0 \<and> vy (targetVelocity initial) = 0 \<and>
   vy (cameraPosition (run defaults northWall initial
         [KeyDown ''KeyW'', Frame 16, Frame 32, KeyDown ''KeyA'', Frame 48, KeyUp ''KeyW'',
          SetInteracting True 64, Frame 80])) = 17 / 10"
proof -
  have h2: "vy (velocity initial) = 0" and h3: "vy (targetVelocity initial) = 0"
    by (simp_all add: initial_def)
  note r = height_is_preserved [OF levelScene_northWall h2 h3, where cfg = defaults
      and es = "[KeyDown ''KeyW'', Frame 16, Frame 32, KeyDown ''KeyA'', Frame 48, KeyUp ''KeyW'',
          SetInteracting True 64, Frame 80]"]
  have "vy (cameraPosition initial) = 17 / 10" by (simp add: initial_def)
  with r levelScene_northWall h2 h3 show ?thesis by simp
qed

end
